theory Spec2Isabelle
  imports Main "HOL-Library.Sublist"
begin

section \<open>Sales by expansion: the terminal application of salesByExpansion.js\<close>

text \<open>
  The script keeps its user-interface state in seven captured variables, changes them in
  \<^verbatim>\<open>handleInput\<close> (one call per decoded key), repaints with \<^verbatim>\<open>render\<close>, and on
  the results screen sums the order history per marked expansion in \<^verbatim>\<open>renderResults\<close>.
  The embedding keeps the variables as a record that every function takes and returns,
  turns \<^verbatim>\<open>process.exit\<close> into a result value and every loop into a fold.

  Numbers are JavaScript numbers used as integers (ids, cents, quantities, cursor); they
  are modelled as \<open>int\<close>, which agrees with the script below \<open>2^53\<close>. A string is a list of
  characters, one \<open>char\<close> per UTF-16 code unit; the model covers ASCII text, on which
  \<^verbatim>\<open>toLowerCase\<close> changes the letters A to Z only.
\<close>

subsection \<open>Strings\<close>

abbreviation ESC :: char where "ESC \<equiv> CHR 0x1B"
abbreviation CR :: char where "CR \<equiv> CHR 0x0D"
abbreviation DEL :: char where "DEL \<equiv> CHR 0x7F"
abbreviation BS :: char where "BS \<equiv> CHR 0x08"

text \<open>\<^verbatim>\<open>String.prototype.toLowerCase\<close> on the letters A to Z.\<close>

definition lower_char :: "char \<Rightarrow> char" where
  "lower_char c =
     (let n = (of_char c :: nat) in if 65 \<le> n \<and> n \<le> 90 then char_of (n + 32) else c)"

definition toLowerCase :: "string \<Rightarrow> string" where
  "toLowerCase s = map lower_char s"

text \<open>\<^verbatim>\<open>s.includes(t)\<close>: \<open>t\<close> occurs in \<open>s\<close> as a contiguous run.\<close>

fun str_includes :: "string \<Rightarrow> string \<Rightarrow> bool" where
  "str_includes [] t = (t = [])"
| "str_includes (c # cs) t = (prefix t (c # cs) \<or> str_includes cs t)"

text \<open>
  \<^verbatim>\<open>xs[i]\<close> for a number \<open>i\<close>: the element, or \<^verbatim>\<open>undefined\<close> (here \<open>None\<close>) when
  \<open>i\<close> is negative or past the end.
\<close>

definition js_index :: "'a list \<Rightarrow> int \<Rightarrow> 'a option" where
  "js_index xs i = (if 0 \<le> i \<and> i < int (length xs) then Some (xs ! nat i) else None)"

subsection \<open>Reference data and the user-interface state\<close>

record game =
  g_id :: int
  g_name :: string

record expansion =
  e_id :: int
  e_game_id :: int
  e_code :: string
  e_name :: string

datatype screen = GameSelect | ExpansionSelect | Results

text \<open>
  The variables of lines 122 to 128. \<open>markedExpansions\<close> is a JavaScript \<^verbatim>\<open>Set\<close>, which
  iterates in insertion order: a list without repetitions, new ids at the end.
\<close>

record ui_state =
  state :: screen
  selectedGameId :: "int option"
  cursor :: int
  scrollOffset :: int
  filterMode :: bool
  filterText :: string
  markedExpansions :: "int list"

definition initial_state :: ui_state where
  "initial_state =
     \<lparr> state = GameSelect, selectedGameId = None, cursor = 0, scrollOffset = 0,
       filterMode = False, filterText = [], markedExpansions = [] \<rparr>"

definition set_has :: "int list \<Rightarrow> int \<Rightarrow> bool" where
  "set_has m x = (x \<in> set m)"

definition set_add :: "int list \<Rightarrow> int \<Rightarrow> int list" where
  "set_add m x = (if x \<in> set m then m else m @ [x])"

definition set_delete :: "int list \<Rightarrow> int \<Rightarrow> int list" where
  "set_delete m x = removeAll x m"

subsection \<open>Order history\<close>

text \<open>
  A line item of an order, with the fields \<^verbatim>\<open>renderResults\<close> reads. A field that is
  missing or \<^verbatim>\<open>null\<close> is \<open>None\<close>. \<open>price_rounded\<close> stands for the \<^verbatim>\<open>price\<close> field:
  \<open>Some r\<close> when \<^verbatim>\<open>typeof item.price === 'number'\<close> and \<^verbatim>\<open>Math.round(item.price * 100)\<close>
  is \<open>r\<close>, and \<open>None\<close> when the field is not a number.
\<close>

record order_item =
  expansion_field :: "string option"
  quantity :: "int option"
  seller_price_cents :: "int option"
  price_cents :: "int option"
  price_rounded :: "int option"
  name_field :: "string option"
  blueprint_name :: "string option"

text \<open>
  What \<^verbatim>\<open>order.order_items\<close> or \<^verbatim>\<open>order.items\<close> can hold: a falsy value (missing,
  \<^verbatim>\<open>null\<close>), a truthy value that is not an array, or an array of line items.
\<close>

datatype items_field = Absent | NonArray | ItemArray "order_item list"

record order =
  order_items :: items_field
  items :: items_field

record env =
  games :: "game list"
  expansions :: "expansion list"
  orders :: "order list"

subsection \<open>Rendering: what the repaint does to the state\<close>

definition getVisibleRows :: "int \<Rightarrow> int" where
  "getVisibleRows rows = rows - 6"

text \<open>
  Lines 149 to 151 and, word for word, 190 to 192: clamp the cursor to the list, then
  move the window so that it holds the cursor. \<open>n\<close> is the length of the filtered list.
\<close>

definition scroll_to_cursor :: "int \<Rightarrow> int \<Rightarrow> ui_state \<Rightarrow> ui_state" where
  "scroll_to_cursor n visibleRows s =
     (let s1 = (if cursor s \<ge> n then s\<lparr>cursor := max 0 (n - 1)\<rparr> else s);
          s2 = (if cursor s1 < scrollOffset s1 then s1\<lparr>scrollOffset := cursor s1\<rparr> else s1)
      in if cursor s2 \<ge> scrollOffset s2 + visibleRows
         then s2\<lparr>scrollOffset := cursor s2 - visibleRows + 1\<rparr> else s2)"

definition filteredGames :: "env \<Rightarrow> ui_state \<Rightarrow> game list" where
  "filteredGames env s =
     filter (\<lambda>g. str_includes (toLowerCase (g_name g)) (toLowerCase (filterText s))) (games env)"

definition gameExpansions :: "env \<Rightarrow> ui_state \<Rightarrow> expansion list" where
  "gameExpansions env s =
     filter (\<lambda>e. Some (e_game_id e) = selectedGameId s) (expansions env)"

definition filteredExps :: "env \<Rightarrow> ui_state \<Rightarrow> expansion list" where
  "filteredExps env s =
     filter (\<lambda>e. str_includes (toLowerCase (e_name e)) (toLowerCase (filterText s)))
       (gameExpansions env s)"

definition renderGameSelect :: "env \<Rightarrow> int \<Rightarrow> ui_state \<Rightarrow> ui_state" where
  "renderGameSelect env rows s =
     (let visibleRows = getVisibleRows rows; filtered = filteredGames env s
      in if length filtered = 0 then s
         else scroll_to_cursor (int (length filtered)) visibleRows s)"

definition renderExpansionSelect :: "env \<Rightarrow> int \<Rightarrow> ui_state \<Rightarrow> ui_state" where
  "renderExpansionSelect env rows s =
     (let visibleRows = getVisibleRows rows; filtered = filteredExps env s
      in if length filtered = 0 then s
         else scroll_to_cursor (int (length filtered)) visibleRows s)"

definition render :: "env \<Rightarrow> int \<Rightarrow> ui_state \<Rightarrow> ui_state" where
  "render env rows s =
     (if state s = GameSelect then renderGameSelect env rows s
      else if state s = ExpansionSelect then renderExpansionSelect env rows s
      else s)"

subsection \<open>Aggregation: the sales of one marked expansion\<close>

record card_total =
  qty :: int
  cents :: int

text \<open>
  \<open>cardBreakdown\<close> is a JavaScript \<^verbatim>\<open>Map\<close> from card name to \<open>{qty, cents}\<close>. It keeps
  its keys in the order of their first insertion, and setting a key that is present
  replaces the value where it stands.
\<close>

type_synonym breakdown = "(string \<times> card_total) list"

fun map_set :: "breakdown \<Rightarrow> string \<Rightarrow> card_total \<Rightarrow> breakdown" where
  "map_set [] k v = [(k, v)]"
| "map_set ((k', v') # m) k v = (if k' = k then (k, v) # m else (k', v') # map_set m k v)"

definition map_get :: "breakdown \<Rightarrow> string \<Rightarrow> card_total option" where
  "map_get m k = map_of m k"

record tally =
  totalCents :: int
  totalQty :: int
  cardBreakdown :: breakdown

record expansion_sales = tally +
  sale_id :: int
  sale_name :: string

text \<open>\<^verbatim>\<open>(item.expansion || '').toLowerCase()\<close>\<close>

definition itemExpName :: "order_item \<Rightarrow> string" where
  "itemExpName item = toLowerCase (case expansion_field item of Some x \<Rightarrow> x | None \<Rightarrow> [])"

text \<open>\<^verbatim>\<open>item.quantity ?? 1\<close>\<close>

definition item_qty :: "order_item \<Rightarrow> int" where
  "item_qty item = (case quantity item of Some q \<Rightarrow> q | None \<Rightarrow> 1)"

text \<open>
  \<^verbatim>\<open>item.seller_price?.cents ?? item.price_cents ??
    (typeof item.price === 'number' ? Math.round(item.price * 100) : 0)\<close>
\<close>

definition item_priceCents :: "order_item \<Rightarrow> int" where
  "item_priceCents item =
     (case seller_price_cents item of Some c \<Rightarrow> c
      | None \<Rightarrow> (case price_cents item of Some c \<Rightarrow> c
         | None \<Rightarrow> (case price_rounded item of Some r \<Rightarrow> r | None \<Rightarrow> 0)))"

text \<open>\<^verbatim>\<open>item.name || item.blueprint?.name || 'Unknown'\<close>: an empty string is falsy.\<close>

definition truthy_string :: "string option \<Rightarrow> bool" where
  "truthy_string x = (case x of Some v \<Rightarrow> v \<noteq> [] | None \<Rightarrow> False)"

definition item_name :: "order_item \<Rightarrow> string" where
  "item_name item =
     (if truthy_string (name_field item) then the (name_field item)
      else if truthy_string (blueprint_name item) then the (blueprint_name item)
      else ''Unknown'')"

text \<open>The body of the inner loop, lines 240 to 253.\<close>

definition scan_item :: "string \<Rightarrow> order_item \<Rightarrow> tally \<Rightarrow> tally" where
  "scan_item expName item t =
     (if itemExpName item = expName then
        (let q = item_qty item;
             priceCents = item_priceCents item;
             name = item_name item;
             prev = (case map_get (cardBreakdown t) name of
                       Some p \<Rightarrow> p | None \<Rightarrow> \<lparr> qty = 0, cents = 0 \<rparr>)
         in \<lparr> totalCents = totalCents t + priceCents * q,
              totalQty = totalQty t + q,
              cardBreakdown = map_set (cardBreakdown t) name
                 \<lparr> qty = qty prev + q, cents = cents prev + priceCents * q \<rparr> \<rparr>)
      else t)"

text \<open>
  \<^verbatim>\<open>order.order_items || order.items || []\<close>, then \<^verbatim>\<open>if (!Array.isArray(items)) continue\<close>:
  \<open>None\<close> is the \<^verbatim>\<open>continue\<close>. An empty array is truthy.
\<close>

definition order_line_items :: "order \<Rightarrow> order_item list option" where
  "order_line_items ord =
     (case order_items ord of
        ItemArray xs \<Rightarrow> Some xs
      | NonArray \<Rightarrow> None
      | Absent \<Rightarrow> (case items ord of
           ItemArray xs \<Rightarrow> Some xs | NonArray \<Rightarrow> None | Absent \<Rightarrow> Some []))"

definition scan_order :: "string \<Rightarrow> order \<Rightarrow> tally \<Rightarrow> tally" where
  "scan_order expName ord t =
     (case order_line_items ord of None \<Rightarrow> t | Some xs \<Rightarrow> fold (scan_item expName) xs t)"

definition scan_orders :: "string \<Rightarrow> order list \<Rightarrow> tally" where
  "scan_orders expName os =
     fold (scan_order expName) os \<lparr> totalCents = 0, totalQty = 0, cardBreakdown = [] \<rparr>"

text \<open>
  One turn of the loop over \<open>markedExpansions\<close>, lines 229 to 264.
  \<^verbatim>\<open>exp?.name?.toLowerCase() || ''\<close> is the lower-cased name, or the empty string when no
  expansion has the id.
\<close>

definition expName_of :: "expansion option \<Rightarrow> string" where
  "expName_of exp = (case exp of Some e \<Rightarrow> toLowerCase (e_name e) | None \<Rightarrow> [])"

definition sales_of_expansion :: "env \<Rightarrow> int \<Rightarrow> expansion_sales" where
  "sales_of_expansion env expId =
     (let exp = find (\<lambda>e. e_id e = expId) (expansions env);
          t = scan_orders (expName_of exp) (orders env)
      in \<lparr> totalCents = totalCents t, totalQty = totalQty t, cardBreakdown = cardBreakdown t,
           sale_id = expId,
           sale_name = (case exp of
                          Some e \<Rightarrow> if e_name e \<noteq> [] then e_name e else ''Unknown''
                        | None \<Rightarrow> ''Unknown'') \<rparr>)"


record results_view =
  results :: "expansion_sales list"
  grandTotalCents :: int
  grandTotalQty :: int

definition renderResults :: "env \<Rightarrow> ui_state \<Rightarrow> results_view" where
  "renderResults env s =
     (let rs = map (sales_of_expansion env) (markedExpansions s)
      in \<lparr> results = rs,
           grandTotalCents = fold (\<lambda>r g. g + totalCents r) rs 0,
           grandTotalQty = fold (\<lambda>r g. g + totalQty r) rs 0 \<rparr>)"

subsection \<open>Input handling\<close>

text \<open>
  The result of one \<^verbatim>\<open>handleInput\<close> call: the process has exited, or the call returned
  with a new state, or it returned after \<^verbatim>\<open>renderResults\<close> computed and painted the sales.
\<close>

datatype outcome = Exit | Continue ui_state | Calculated ui_state results_view

definition handleInput :: "env \<Rightarrow> int \<Rightarrow> ui_state \<Rightarrow> string \<Rightarrow> outcome" where
  "handleInput env rows s key =
     (if state s = Results then
        (if key = ''q'' then Exit
         else Continue (render env rows (s\<lparr>state := ExpansionSelect\<rparr>)))
      else if filterMode s then
        (if key = [ESC] \<or> key = [CR] then
           Continue (render env rows (s\<lparr>filterMode := False\<rparr>))
         else if key = [DEL] \<or> key = [BS] then
           Continue (render env rows
             (s\<lparr>filterText := butlast (filterText s), cursor := 0, scrollOffset := 0\<rparr>))
         else if length key = 1 \<and> (32::nat) \<le> of_char (hd key) then
           Continue (render env rows
             (s\<lparr>filterText := filterText s @ key, cursor := 0, scrollOffset := 0\<rparr>))
         else Continue s)
      else if key = ''q'' then Exit
      else if key = ''/'' then
        Continue (render env rows (s\<lparr>filterMode := True, filterText := []\<rparr>))
      else if key = [ESC, CHR ''['', CHR ''A''] \<or> key = ''k'' then
        Continue (render env rows (s\<lparr>cursor := max 0 (cursor s - 1)\<rparr>))
      else if key = [ESC, CHR ''['', CHR ''B''] \<or> key = ''j'' then
        (let maxIdx = (if state s = GameSelect then int (length (filteredGames env s)) - 1
                       else int (length (filteredExps env s)) - 1)
         in Continue (render env rows (s\<lparr>cursor := min maxIdx (cursor s + 1)\<rparr>)))
      else if key = [ESC] \<and> state s = ExpansionSelect then
        Continue (render env rows
          (s\<lparr>state := GameSelect, cursor := 0, scrollOffset := 0, filterText := [],
             markedExpansions := []\<rparr>))
      else if key = '' '' \<and> state s = ExpansionSelect then
        (case js_index (filteredExps env s) (cursor s) of
           Some exp \<Rightarrow>
             Continue (render env rows
               (s\<lparr>markedExpansions :=
                   (if set_has (markedExpansions s) (e_id exp)
                    then set_delete (markedExpansions s) (e_id exp)
                    else set_add (markedExpansions s) (e_id exp))\<rparr>))
         | None \<Rightarrow> Continue (render env rows s))
      else if key = [CR] then
        (if state s = GameSelect then
           (case js_index (filteredGames env s) (cursor s) of
              Some g \<Rightarrow>
                Continue (render env rows
                  (s\<lparr>selectedGameId := Some (g_id g), state := ExpansionSelect, cursor := 0,
                     scrollOffset := 0, filterText := []\<rparr>))
            | None \<Rightarrow> Continue s)
         else if state s = ExpansionSelect \<and> length (markedExpansions s) > 0 then
           (let s' = s\<lparr>state := Results\<rparr> in Calculated s' (renderResults env s'))
         else Continue s)
      else Continue s)"

text \<open>The state the next key finds, if the process is still running.\<close>

fun next_state :: "outcome \<Rightarrow> ui_state option" where
  "next_state Exit = None"
| "next_state (Continue s) = Some s"
| "next_state (Calculated s v) = Some s"

text \<open>
  The states the program can be in between two keys: line 426 renders the initial state,
  then every key goes through \<open>handleInput\<close>. The terminal may have any number of rows at
  each repaint.
\<close>

inductive reachable :: "env \<Rightarrow> ui_state \<Rightarrow> bool" for env :: env where
  start: "reachable env (render env rows initial_state)"
| step: "reachable env s \<Longrightarrow> next_state (handleInput env rows s key) = Some s'
           \<Longrightarrow> reachable env s'"

text \<open>A run of the program on a list of (terminal rows, key) pairs; \<open>None\<close> after an exit.\<close>

fun run :: "env \<Rightarrow> ui_state \<Rightarrow> (int \<times> string) list \<Rightarrow> ui_state option" where
  "run env s [] = Some s"
| "run env s ((rows, key) # ks) =
     (case next_state (handleInput env rows s key) of
        None \<Rightarrow> None
      | Some s' \<Rightarrow> run env s' ks)"

subsection \<open>The input decoder\<close>

text \<open>
  The \<^verbatim>\<open>data\<close> handler of lines 428 to 457. Its state is \<open>escapeBuffer\<close> and the timers
  started by \<^verbatim>\<open>setTimeout\<close> that have not fired yet; all have the same delay, so they
  fire in the order they were started and their number is enough. The decoder sees
  characters and timer expiries; it answers with the keys it passes to \<open>handleInput\<close>.
\<close>

record decoder =
  escapeBuffer :: string
  timers :: nat

datatype input = Byte char | Timeout

definition on_char :: "decoder \<Rightarrow> char \<Rightarrow> decoder \<times> string list" where
  "on_char d c =
     (if length (escapeBuffer d) > 0 then
        (let b = escapeBuffer d @ [c] in
         if length b = 3 \<and> prefix [ESC, CHR ''[''] b then (d\<lparr>escapeBuffer := []\<rparr>, [b])
         else if length b \<ge> 3 then (d\<lparr>escapeBuffer := []\<rparr>, [])
         else (d\<lparr>escapeBuffer := b\<rparr>, []))
      else if c = ESC then (d\<lparr>escapeBuffer := [ESC], timers := timers d + 1\<rparr>, [])
      else (d, [[c]]))"

definition on_timeout :: "decoder \<Rightarrow> decoder \<times> string list" where
  "on_timeout d =
     (if timers d = 0 then (d, [])
      else (let d' = d\<lparr>timers := timers d - 1\<rparr> in
            if escapeBuffer d' = [ESC] then (d'\<lparr>escapeBuffer := []\<rparr>, [[ESC]])
            else (d', [])))"

fun decode :: "decoder \<Rightarrow> input list \<Rightarrow> decoder \<times> string list" where
  "decode d [] = (d, [])"
| "decode d (Byte c # evs) =
     (let (d1, ks) = on_char d c; (d2, ks') = decode d1 evs in (d2, ks @ ks'))"
| "decode d (Timeout # evs) =
     (let (d1, ks) = on_timeout d; (d2, ks') = decode d1 evs in (d2, ks @ ks'))"

subsection \<open>The sales of an expansion as the specification words them\<close>

text \<open>
  The specification describes the result of the scan without loops: take the line items
  of all records, keep those whose recorded expansion name equals the expansion's name
  up to letter case, and sum. The definitions below follow these words; the theorems on
  the aggregation compare them with \<open>scan_orders\<close>. The line items of a record are the
  array \<open>order_line_items\<close> finds, and none when it finds no array.
\<close>

definition all_line_items :: "order list \<Rightarrow> order_item list" where
  "all_line_items os =
     concat (map (\<lambda>ord. case order_line_items ord of Some xs \<Rightarrow> xs | None \<Rightarrow> []) os)"


text \<open>The quantity and the revenue of the items with one card name.\<close>

definition card_sum :: "string \<Rightarrow> order_item list \<Rightarrow> card_total" where
  "card_sum n ms =
     \<lparr> qty = sum_list (map item_qty (filter (\<lambda>i. item_name i = n) ms)),
       cents = sum_list (map (\<lambda>i. item_priceCents i * item_qty i)
                 (filter (\<lambda>i. item_name i = n) ms)) \<rparr>"

text \<open>
  The distinct elements of a list in the order of their first occurrence (\<open>remdups\<close>
  keeps the last occurrence of each, hence the two reversals).
\<close>

definition first_seen :: "'a list \<Rightarrow> 'a list" where
  "first_seen ns = rev (remdups (rev ns))"

definition spec_breakdown :: "order_item list \<Rightarrow> breakdown" where
  "spec_breakdown ms = map (\<lambda>n. (n, card_sum n ms)) (first_seen (map item_name ms))"

text \<open>
  An invariant of the repaint used below: when the list of the current screen is empty
  (the expansion list counts for the results screen, which returns to it), the scroll
  offset is 0.
\<close>

definition scroll_inv :: "env \<Rightarrow> ui_state \<Rightarrow> bool" where
  "scroll_inv env s =
     ((state s = GameSelect \<longrightarrow> filteredGames env s = [] \<longrightarrow> scrollOffset s = 0) \<and>
      (state s \<noteq> GameSelect \<longrightarrow> filteredExps env s = [] \<longrightarrow> scrollOffset s = 0))"

subsection \<open>A small data set\<close>

text \<open>
  One game with two expansions and one order: two copies of ``Card A'' from Alpha at
  500 cents each.
\<close>

definition scenario_env :: env where
  "scenario_env =
     \<lparr> games = [\<lparr>g_id = 1, g_name = ''Magic''\<rparr>],
       expansions = [\<lparr>e_id = 10, e_game_id = 1, e_code = ''LEA'', e_name = ''Alpha''\<rparr>,
                     \<lparr>e_id = 11, e_game_id = 1, e_code = ''LEB'', e_name = ''Beta''\<rparr>],
       orders = [\<lparr>order_items = ItemArray
                   [\<lparr>expansion_field = Some ''Alpha'', quantity = Some 2,
                     seller_price_cents = Some 500, price_cents = None, price_rounded = None,
                     name_field = Some ''Card A'', blueprint_name = None\<rparr>],
                  items = Absent\<rparr>] \<rparr>"

text \<open>
  A longer order history for expansion 10 (Alpha): seven card names over three records,
  with a name that recurs, revenues that tie, a line without quantity, a line without
  price, a line of another expansion, and a record whose \<open>order_items\<close> is not an array.
\<close>

definition line :: "string \<Rightarrow> string \<Rightarrow> int option \<Rightarrow> int option \<Rightarrow> order_item" where
  "line x n q p =
     \<lparr> expansion_field = Some x, quantity = q, seller_price_cents = p, price_cents = None,
       price_rounded = None, name_field = Some n, blueprint_name = None \<rparr>"


section \<open>Properties of the navigation state machine\<close>

lemma render_fields [simp]:
  "state (render env rows s) = state s"
  "selectedGameId (render env rows s) = selectedGameId s"
  "filterMode (render env rows s) = filterMode s"
  "filterText (render env rows s) = filterText s"
  "markedExpansions (render env rows s) = markedExpansions s"
  by (simp_all add: render_def renderGameSelect_def renderExpansionSelect_def
      scroll_to_cursor_def Let_def)

lemma run_reachable: "reachable env s \<Longrightarrow> run env s ks = Some s' \<Longrightarrow> reachable env s'"
proof (induction ks arbitrary: s)
  case Nil
  then show ?case by simp
next
  case (Cons k ks)
  obtain rows key where k: "k = (rows, key)" by (cases k)
  from Cons.prems(2) k obtain s1 where
    s1: "next_state (handleInput env rows s key) = Some s1" and r: "run env s1 ks = Some s'"
    by (auto split: option.splits)
  from Cons.prems(1) s1 have "reachable env s1" by (rule reachable.step)
  from this r show ?case by (rule Cons.IH)
qed

subsection \<open>Quit\<close>

text \<open>
  Claim C9 says that the key \<open>q\<close> ends the program from every state, on every screen and
  in every sub-mode. In the filter sub-mode of a list screen it does not: the filter
  block of \<open>handleInput\<close> comes before the quit test, and \<open>q\<close> is a printable character,
  so it is appended to the filter text. Here the user presses \<open>/\<close> and then \<open>q\<close>, and the
  program is still running.
\<close>

theorem quit_in_filter_mode_counterexample:
  "run scenario_env (render scenario_env 24 initial_state) [(24, ''/'')] =
     Some \<lparr>state = GameSelect, selectedGameId = None, cursor = 0, scrollOffset = 0,
           filterMode = True, filterText = [], markedExpansions = []\<rparr> \<and>
   handleInput scenario_env 24
     \<lparr>state = GameSelect, selectedGameId = None, cursor = 0, scrollOffset = 0,
      filterMode = True, filterText = [], markedExpansions = []\<rparr> ''q'' =
     Continue \<lparr>state = GameSelect, selectedGameId = None, cursor = 0, scrollOffset = 0,
               filterMode = True, filterText = ''q'', markedExpansions = []\<rparr>"
  by code_simp

text \<open>
  Claim C9, amended: \<open>q\<close> ends the program exactly on the results screen and on a list
  screen outside the filter sub-mode; in the filter sub-mode of a list screen it becomes
  the next character of the filter text, and the cursor and the scroll offset are reset
  before the repaint.
\<close>

theorem quit_exits_unless_filtering:
  "((handleInput env rows s ''q'' = Exit) = (state s = Results \<or> \<not> filterMode s)) \<and>
   (state s \<noteq> Results \<and> filterMode s \<longrightarrow>
      handleInput env rows s ''q'' =
        Continue (render env rows
          (s\<lparr>filterText := filterText s @ ''q'', cursor := 0, scrollOffset := 0\<rparr>)))"
  by (simp add: handleInput_def)

theorem quit_exits_unless_filtering_witness:
  "handleInput scenario_env 24 initial_state ''q'' = Exit \<and>
   state (initial_state\<lparr>filterMode := True\<rparr>) \<noteq> Results \<and>
   filterMode (initial_state\<lparr>filterMode := True\<rparr>) \<and>
   handleInput scenario_env 24 (initial_state\<lparr>filterMode := True\<rparr>) ''q'' =
     Continue (render scenario_env 24
       (initial_state\<lparr>filterMode := True, filterText := ''q'', cursor := 0, scrollOffset := 0\<rparr>))"
  using quit_exits_unless_filtering [of scenario_env 24 initial_state]
    quit_exits_unless_filtering [of scenario_env 24 "initial_state\<lparr>filterMode := True\<rparr>"]
  by (simp add: initial_state_def)

subsection \<open>Enter on the expansion list with nothing marked\<close>

text \<open>
  Claim C10 says that Enter on the expansion list with an empty marked set changes
  nothing, the filter mode included. In the filter sub-mode Enter ends the sub-mode:
  after Enter (open the game) and \<open>/\<close>, a second Enter turns \<open>filterMode\<close> off.
\<close>

theorem enter_in_filter_mode_counterexample:
  "run scenario_env (render scenario_env 24 initial_state) [(24, [CR]), (24, ''/'')] =
     Some \<lparr>state = ExpansionSelect, selectedGameId = Some 1, cursor = 0, scrollOffset = 0,
           filterMode = True, filterText = [], markedExpansions = []\<rparr> \<and>
   handleInput scenario_env 24
     \<lparr>state = ExpansionSelect, selectedGameId = Some 1, cursor = 0, scrollOffset = 0,
      filterMode = True, filterText = [], markedExpansions = []\<rparr> [CR] =
     Continue \<lparr>state = ExpansionSelect, selectedGameId = Some 1, cursor = 0, scrollOffset = 0,
               filterMode = False, filterText = [], markedExpansions = []\<rparr>"
  by code_simp

text \<open>
  Claim C10, amended: outside the filter sub-mode, Enter on the expansion list with an
  empty marked set returns the state as it was, without a repaint, a change of screen or
  an aggregation. In the filter sub-mode it only ends the sub-mode: the screen, the
  filter text, the selected game and the empty marked set stay, and nothing is aggregated.
\<close>

theorem enter_without_marks:
  assumes "state s = ExpansionSelect" and "markedExpansions s = []"
  shows "(\<not> filterMode s \<longrightarrow> handleInput env rows s [CR] = Continue s) \<and>
         (filterMode s \<longrightarrow>
            (\<exists>s'. handleInput env rows s [CR] = Continue s' \<and> state s' = ExpansionSelect \<and>
                  \<not> filterMode s' \<and> filterText s' = filterText s \<and>
                  markedExpansions s' = [] \<and> selectedGameId s' = selectedGameId s))"
  using assms by (simp add: handleInput_def)

theorem enter_without_marks_witness:
  "state (initial_state\<lparr>state := ExpansionSelect, selectedGameId := Some 1\<rparr>) = ExpansionSelect \<and>
   markedExpansions (initial_state\<lparr>state := ExpansionSelect, selectedGameId := Some 1\<rparr>) = [] \<and>
   \<not> filterMode (initial_state\<lparr>state := ExpansionSelect, selectedGameId := Some 1\<rparr>) \<and>
   handleInput scenario_env 24 (initial_state\<lparr>state := ExpansionSelect, selectedGameId := Some 1\<rparr>) [CR] =
     Continue (initial_state\<lparr>state := ExpansionSelect, selectedGameId := Some 1\<rparr>)"
  using enter_without_marks
    [of "initial_state\<lparr>state := ExpansionSelect, selectedGameId := Some 1\<rparr>" scenario_env 24]
  by (simp add: initial_state_def)

subsection \<open>Leaving the results screen\<close>

text \<open>
  Claim C2 says that any key but \<open>q\<close> on the results screen returns to the expansion list
  with the marked set unchanged and with the cursor and the scroll offset reset to 0.
  The branch of \<open>handleInput\<close> only sets the screen and repaints. With one visible row
  (a terminal of 7 rows), the user opens the game, moves down to Beta, marks it and
  presses Enter; the key \<open>x\<close> then returns to the list with cursor 1 and scroll offset 1.
\<close>

theorem leaving_results_counterexample:
  "run scenario_env (render scenario_env 7 initial_state)
       [(7, [CR]), (7, ''j''), (7, '' ''), (7, [CR])] =
     Some \<lparr>state = Results, selectedGameId = Some 1, cursor = 1, scrollOffset = 1,
           filterMode = False, filterText = [], markedExpansions = [11]\<rparr> \<and>
   handleInput scenario_env 7
     \<lparr>state = Results, selectedGameId = Some 1, cursor = 1, scrollOffset = 1,
      filterMode = False, filterText = [], markedExpansions = [11]\<rparr> ''x'' =
     Continue \<lparr>state = ExpansionSelect, selectedGameId = Some 1, cursor = 1, scrollOffset = 1,
               filterMode = False, filterText = [], markedExpansions = [11]\<rparr>"
  by code_simp

text \<open>
  Claim C2, amended: any key but \<open>q\<close> on the results screen returns to the expansion list
  with the marked set, the selected game and the filter unchanged; the cursor and the
  scroll offset are not reset. They keep their values whenever the filtered list is
  empty or they already fit the list and the window, and otherwise the repaint adjusts
  them as on every other repaint.
\<close>

theorem leaving_results_keeps_position:
  assumes "state s = Results" and "key \<noteq> ''q''"
  shows "\<exists>s'. handleInput env rows s key = Continue s' \<and> state s' = ExpansionSelect \<and>
           markedExpansions s' = markedExpansions s \<and> selectedGameId s' = selectedGameId s \<and>
           filterText s' = filterText s \<and> filterMode s' = filterMode s \<and>
           s' = render env rows (s\<lparr>state := ExpansionSelect\<rparr>) \<and>
           (filteredExps env s = [] \<or>
            (cursor s < int (length (filteredExps env s)) \<and> scrollOffset s \<le> cursor s \<and>
             cursor s < scrollOffset s + getVisibleRows rows)
            \<longrightarrow> cursor s' = cursor s \<and> scrollOffset s' = scrollOffset s)"
proof -
  have f: "filteredExps env (s\<lparr>state := ExpansionSelect\<rparr>) = filteredExps env s"
    by (simp add: filteredExps_def gameExpansions_def)
  show ?thesis
    using assms f
    by (auto simp: handleInput_def render_def renderExpansionSelect_def scroll_to_cursor_def
        Let_def)
qed

theorem leaving_results_keeps_position_witness:
  "state \<lparr>state = Results, selectedGameId = Some 1, cursor = 1, scrollOffset = 0,
          filterMode = False, filterText = [], markedExpansions = [11]\<rparr> = Results \<and>
   ''x'' \<noteq> ''q'' \<and>
   handleInput scenario_env 24
     \<lparr>state = Results, selectedGameId = Some 1, cursor = 1, scrollOffset = 0,
      filterMode = False, filterText = [], markedExpansions = [11]\<rparr> ''x'' =
     Continue \<lparr>state = ExpansionSelect, selectedGameId = Some 1, cursor = 1, scrollOffset = 0,
               filterMode = False, filterText = [], markedExpansions = [11]\<rparr>"
proof -
  let ?s = "\<lparr>state = Results, selectedGameId = Some 1, cursor = 1, scrollOffset = 0,
             filterMode = False, filterText = [], markedExpansions = [11]\<rparr>"
  have e: "render scenario_env 24 (?s\<lparr>state := ExpansionSelect\<rparr>) =
     \<lparr>state = ExpansionSelect, selectedGameId = Some 1, cursor = 1, scrollOffset = 0,
      filterMode = False, filterText = [], markedExpansions = [11]\<rparr>"
    by code_simp
  from leaving_results_keeps_position [of ?s "''x''" scenario_env 24]
  obtain s' where "handleInput scenario_env 24 ?s ''x'' = Continue s'"
    and "s' = render scenario_env 24 (?s\<lparr>state := ExpansionSelect\<rparr>)"
    by auto
  with e show ?thesis by simp
qed

subsection \<open>The marked set\<close>

lemma js_index_mem: "js_index xs i = Some x \<Longrightarrow> x \<in> set xs"
  by (auto simp: js_index_def split: if_splits)

lemma set_set_add [simp]: "set (set_add m x) = insert x (set m)"
  by (auto simp: set_add_def)

lemma set_set_delete [simp]: "set (set_delete m x) = set m - {x}"
  by (auto simp: set_delete_def)

lemma filteredExps_member:
  "e \<in> set (filteredExps env s) \<Longrightarrow>
     e \<in> set (expansions env) \<and> Some (e_game_id e) = selectedGameId s"
  by (auto simp: filteredExps_def gameExpansions_def)

lemma handleInput_marked:
  assumes inv: "(\<forall>i\<in>set (markedExpansions s). \<exists>e\<in>set (expansions env).
                  e_id e = i \<and> Some (e_game_id e) = selectedGameId s) \<and>
                (state s = GameSelect \<longrightarrow> markedExpansions s = [])"
  shows "case next_state (handleInput env rows s key) of None \<Rightarrow> True | Some s' \<Rightarrow>
         (\<forall>i\<in>set (markedExpansions s'). \<exists>e\<in>set (expansions env).
            e_id e = i \<and> Some (e_game_id e) = selectedGameId s') \<and>
         (state s' = GameSelect \<longrightarrow> markedExpansions s' = [])"
proof (cases "js_index (filteredExps env s) (cursor s)")
  case None
  with inv show ?thesis
    by (simp add: handleInput_def Let_def split: option.split)
next
  case (Some exp)
  have "\<exists>e\<in>set (expansions env). e_id e = e_id exp \<and> Some (e_game_id e) = selectedGameId s"
    using filteredExps_member [OF js_index_mem [OF Some]] by blast
  with Some inv show ?thesis
    by (simp add: handleInput_def Let_def split: option.split)
qed

lemma reachable_marked:
  "reachable env s \<Longrightarrow>
     (\<forall>i\<in>set (markedExpansions s). \<exists>e\<in>set (expansions env).
         e_id e = i \<and> Some (e_game_id e) = selectedGameId s) \<and>
     (state s = GameSelect \<longrightarrow> markedExpansions s = [])"
proof (induction rule: reachable.induct)
  case (start rows)
  show ?case by (simp add: initial_state_def)
next
  case (step s rows key s')
  from handleInput_marked [OF step.IH, of rows key] step.hyps(2) show ?case by simp
qed


text \<open>
  Claim C6: in every reachable state, every marked id is the id of an expansion whose
  \<open>game_id\<close> is the selected game, and the marked set is empty on the game list, that is
  outside a visit to the expansion list (the results screen belongs to the visit: it
  needs a marked id to be entered and always returns to the expansion list).
\<close>

theorem marked_within_selected_game:
  assumes "reachable env s"
  shows "(\<forall>i\<in>set (markedExpansions s). \<exists>e\<in>set (expansions env).
            e_id e = i \<and> Some (e_game_id e) = selectedGameId s) \<and>
         (state s = GameSelect \<longrightarrow> markedExpansions s = [])"
  using assms by (rule reachable_marked)

theorem marked_within_selected_game_witness:
  "reachable scenario_env
     \<lparr>state = Results, selectedGameId = Some 1, cursor = 1, scrollOffset = 0,
      filterMode = False, filterText = [], markedExpansions = [11, 10]\<rparr> \<and>
   (\<exists>e. e \<in> set (expansions scenario_env) \<and> e_id e = 11 \<and> e_game_id e = 1) \<and>
   (\<exists>e. e \<in> set (expansions scenario_env) \<and> e_id e = 10 \<and> e_game_id e = 1)"
proof -
  let ?s = "\<lparr>state = Results, selectedGameId = Some 1, cursor = 1, scrollOffset = 0,
             filterMode = False, filterText = [], markedExpansions = [11, 10]\<rparr>"
  have "run scenario_env (render scenario_env 24 initial_state)
          [(24, [CR]), (24, ''j''), (24, '' ''), (24, ''k''), (24, '' ''), (24, ''j''),
           (24, [CR])] = Some ?s"
    by code_simp
  with reachable.start have r: "reachable scenario_env ?s" by (rule run_reachable)
  from marked_within_selected_game [OF r] r show ?thesis by (simp add: Bex_def)
qed

subsection \<open>Enter on the game list\<close>

text \<open>
  Claim C5 says that Enter on the game list with a highlighted game opens the expansion
  list with cursor 0, scroll offset 0, an empty filter and an empty marked set. Two
  inputs show where it fails. In the filter sub-mode (after \<open>/\<close>) Enter only ends the
  sub-mode and the screen stays the game list. And when the terminal has shrunk to 6
  rows, so that no list row is visible, the repaint that ends the Enter branch moves the
  scroll offset to 1.
\<close>

theorem enter_on_game_counterexample:
  "js_index (filteredGames scenario_env
        \<lparr>state = GameSelect, selectedGameId = None, cursor = 0, scrollOffset = 0,
         filterMode = True, filterText = [], markedExpansions = []\<rparr>) 0 =
     Some \<lparr>g_id = 1, g_name = ''Magic''\<rparr> \<and>
   run scenario_env (render scenario_env 24 initial_state) [(24, ''/''), (24, [CR])] =
     Some \<lparr>state = GameSelect, selectedGameId = None, cursor = 0, scrollOffset = 0,
           filterMode = False, filterText = [], markedExpansions = []\<rparr> \<and>
   run scenario_env (render scenario_env 24 initial_state) [(6, [CR])] =
     Some \<lparr>state = ExpansionSelect, selectedGameId = Some 1, cursor = 0, scrollOffset = 1,
           filterMode = False, filterText = [], markedExpansions = []\<rparr>"
  by code_simp

text \<open>
  Claim C5, amended: in every reachable state on the game list outside the filter
  sub-mode, Enter with a highlighted game, on a terminal that shows at least one list
  row, opens the expansion list of that game with cursor 0, scroll offset 0, an empty
  filter and an empty marked set.
\<close>

theorem enter_opens_game:
  assumes "reachable env s" and "state s = GameSelect" and "\<not> filterMode s"
    and "js_index (filteredGames env s) (cursor s) = Some g" and "0 < getVisibleRows rows"
  shows "\<exists>s'. handleInput env rows s [CR] = Continue s' \<and> state s' = ExpansionSelect \<and>
           selectedGameId s' = Some (g_id g) \<and> cursor s' = 0 \<and> scrollOffset s' = 0 \<and>
           filterText s' = [] \<and> \<not> filterMode s' \<and> markedExpansions s' = []"
proof -
  from reachable_marked [OF assms(1)] assms(2) have m: "markedExpansions s = []" by simp
  let ?x = "s\<lparr>selectedGameId := Some (g_id g), state := ExpansionSelect, cursor := 0,
               scrollOffset := 0, filterText := []\<rparr>"
  have h: "handleInput env rows s [CR] = Continue (render env rows ?x)"
    using assms(2,3,4) by (simp add: handleInput_def)
  have "render env rows ?x = ?x"
    using assms(5)
    by (simp add: render_def renderExpansionSelect_def scroll_to_cursor_def Let_def)
  with h m assms(3) show ?thesis by simp
qed

theorem enter_opens_game_witness:
  "reachable scenario_env initial_state \<and> state initial_state = GameSelect \<and>
   \<not> filterMode initial_state \<and>
   js_index (filteredGames scenario_env initial_state) (cursor initial_state) =
     Some \<lparr>g_id = 1, g_name = ''Magic''\<rparr> \<and>
   0 < getVisibleRows 24 \<and>
   handleInput scenario_env 24 initial_state [CR] =
     Continue \<lparr>state = ExpansionSelect, selectedGameId = Some 1, cursor = 0, scrollOffset = 0,
               filterMode = False, filterText = [], markedExpansions = []\<rparr>"
proof -
  have i: "render scenario_env 24 initial_state = initial_state" by code_simp
  have r: "reachable scenario_env initial_state"
    using reachable.start [of scenario_env 24] by (simp only: i)
  have a: "state initial_state = GameSelect" "\<not> filterMode initial_state"
    by (simp_all add: initial_state_def)
  have j: "js_index (filteredGames scenario_env initial_state) (cursor initial_state) =
     Some \<lparr>g_id = 1, g_name = ''Magic''\<rparr>" by code_simp
  have v: "0 < getVisibleRows 24" by (simp add: getVisibleRows_def)
  from enter_opens_game [OF r a j v]
  obtain s' where h: "handleInput scenario_env 24 initial_state [CR] = Continue s'"
    "state s' = ExpansionSelect" "selectedGameId s' = Some 1" "cursor s' = 0"
    "scrollOffset s' = 0" "filterText s' = []" "\<not> filterMode s'" "markedExpansions s' = []"
    by auto
  then have "s' = \<lparr>state = ExpansionSelect, selectedGameId = Some 1, cursor = 0,
      scrollOffset = 0, filterMode = False, filterText = [], markedExpansions = []\<rparr>"
    by (cases s') simp
  with h(1) r a j v show ?thesis by simp
qed

subsection \<open>The cursor on an empty list\<close>

text \<open>
  Claim C4 says that the cursor is never negative, also after arrow keys on an empty
  filtered list. The arrow-down branch computes \<open>Math.min(maxIdx, cursor + 1)\<close> with
  \<open>maxIdx = length - 1\<close>, which is \<open>-1\<close> for an empty list, and the repaint clamps the
  cursor only when the list is not empty. The user filters the games by \<open>z\<close>, which none
  matches, ends the filter with Enter and presses \<open>j\<close>: the cursor is \<open>-1\<close>. A further
  \<open>/\<close> clears the filter, and the cursor is \<open>-1\<close> on the full list of games.
\<close>

theorem cursor_below_zero_on_empty_list:
  "filteredGames scenario_env
     \<lparr>state = GameSelect, selectedGameId = None, cursor = 0, scrollOffset = 0,
      filterMode = False, filterText = ''z'', markedExpansions = []\<rparr> = [] \<and>
   run scenario_env (render scenario_env 24 initial_state)
       [(24, ''/''), (24, ''z''), (24, [CR])] =
     Some \<lparr>state = GameSelect, selectedGameId = None, cursor = 0, scrollOffset = 0,
           filterMode = False, filterText = ''z'', markedExpansions = []\<rparr> \<and>
   run scenario_env (render scenario_env 24 initial_state)
       [(24, ''/''), (24, ''z''), (24, [CR]), (24, ''j'')] =
     Some \<lparr>state = GameSelect, selectedGameId = None, cursor = - 1, scrollOffset = 0,
           filterMode = False, filterText = ''z'', markedExpansions = []\<rparr> \<and>
   run scenario_env (render scenario_env 24 initial_state)
       [(24, ''/''), (24, ''z''), (24, [CR]), (24, ''j''), (24, ''/'')] =
     Some \<lparr>state = GameSelect, selectedGameId = None, cursor = - 1, scrollOffset = - 1,
           filterMode = True, filterText = [], markedExpansions = []\<rparr>"
  by code_simp

section \<open>Properties of the list renderer\<close>

lemma str_includes_empty [simp]: "str_includes x []"
  by (induction x) simp_all

lemma scroll_inv_render: "scroll_inv env x \<Longrightarrow> scroll_inv env (render env rows x)"
proof -
  have l: "filteredGames env (render env rows x) = filteredGames env x"
    "filteredExps env (render env rows x) = filteredExps env x"
    by (simp_all add: filteredGames_def filteredExps_def gameExpansions_def)
  assume "scroll_inv env x"
  then show ?thesis
    unfolding scroll_inv_def l render_fields
    by (auto simp: render_def renderGameSelect_def renderExpansionSelect_def)
qed

lemma scroll_inv_reset: "scrollOffset x = 0 \<Longrightarrow> scroll_inv env x"
  by (simp add: scroll_inv_def)

lemma scroll_inv_same:
  "scroll_inv env s \<Longrightarrow>
   state x = state s \<or> state s = Results \<and> state x = ExpansionSelect \<or>
     state s = ExpansionSelect \<and> state x = Results \<Longrightarrow>
   selectedGameId x = selectedGameId s \<Longrightarrow> filterText x = filterText s \<Longrightarrow>
   scrollOffset x = scrollOffset s \<Longrightarrow> scroll_inv env x"
  by (auto simp: scroll_inv_def filteredGames_def filteredExps_def gameExpansions_def)

lemma scroll_inv_clear:
  "scroll_inv env s \<Longrightarrow> scroll_inv env (s\<lparr>filterMode := True, filterText := []\<rparr>)"
proof -
  have g: "filteredGames env (s\<lparr>filterMode := True, filterText := []\<rparr>) = []
             \<Longrightarrow> filteredGames env s = []"
    by (simp add: filteredGames_def toLowerCase_def)
  have e: "filteredExps env (s\<lparr>filterMode := True, filterText := []\<rparr>) = []
             \<Longrightarrow> filteredExps env s = []"
    by (simp add: filteredExps_def gameExpansions_def toLowerCase_def)
  assume "scroll_inv env s"
  with g e show ?thesis by (auto simp: scroll_inv_def)
qed

lemma handleInput_scroll_inv:
  assumes inv: "scroll_inv env s"
  shows "case next_state (handleInput env rows s key) of
           None \<Rightarrow> True | Some s' \<Rightarrow> scroll_inv env s'"
  using inv
  by (simp add: handleInput_def Let_def scroll_inv_render scroll_inv_reset scroll_inv_same
      scroll_inv_clear split: option.split)

lemma reachable_scroll_inv: "reachable env s \<Longrightarrow> scroll_inv env s"
proof (induction rule: reachable.induct)
  case (start rows)
  show ?case by (rule scroll_inv_render) (simp add: scroll_inv_def initial_state_def)
next
  case (step s rows key s')
  from handleInput_scroll_inv [OF step.IH, of rows key] step.hyps(2) show ?case by simp
qed

text \<open>
  Claim C7 says that after every repaint \<open>scrollOffset \<le> cursor < scrollOffset + visibleRows\<close>
  for a non-empty list, for all viewport heights. The number of visible rows is the
  terminal's rows minus 6; on a terminal of 6 rows it is 0, no offset can satisfy the
  inequality, and the first repaint of the game list leaves cursor 0 and scroll offset 1.
\<close>

theorem render_window_counterexample:
  "getVisibleRows 6 = 0 \<and>
   filteredGames scenario_env initial_state = [\<lparr>g_id = 1, g_name = ''Magic''\<rparr>] \<and>
   render scenario_env 6 initial_state =
     \<lparr>state = GameSelect, selectedGameId = None, cursor = 0, scrollOffset = 1,
      filterMode = False, filterText = [], markedExpansions = []\<rparr>"
  by code_simp

text \<open>
  Claim C7, amended: when at least one list row is visible, every repaint of a list
  screen with a non-empty filtered list, from any state, ends with
  \<open>scrollOffset \<le> cursor < scrollOffset + visibleRows\<close>; and in every reachable state (every
  repaint ends in one) whose list screen has an empty filtered list, the scroll offset
  is 0. Nothing is said about the cursor on an empty list.
\<close>

theorem render_keeps_cursor_in_window:
  assumes "0 < getVisibleRows rows"
  shows "(state s = GameSelect \<and> filteredGames env s \<noteq> [] \<or>
          state s = ExpansionSelect \<and> filteredExps env s \<noteq> [] \<longrightarrow>
            scrollOffset (render env rows s) \<le> cursor (render env rows s) \<and>
            cursor (render env rows s) < scrollOffset (render env rows s) + getVisibleRows rows) \<and>
         (reachable env s \<longrightarrow>
            state s = GameSelect \<and> filteredGames env s = [] \<or>
            state s = ExpansionSelect \<and> filteredExps env s = [] \<longrightarrow> scrollOffset s = 0)"
proof -
  have w: "scrollOffset (scroll_to_cursor n (getVisibleRows rows) s)
             \<le> cursor (scroll_to_cursor n (getVisibleRows rows) s) \<and>
           cursor (scroll_to_cursor n (getVisibleRows rows) s)
             < scrollOffset (scroll_to_cursor n (getVisibleRows rows) s) + getVisibleRows rows"
    for n
    using assms by (simp add: scroll_to_cursor_def Let_def)
  have a: "state s = GameSelect \<and> filteredGames env s \<noteq> [] \<or>
          state s = ExpansionSelect \<and> filteredExps env s \<noteq> [] \<longrightarrow>
            scrollOffset (render env rows s) \<le> cursor (render env rows s) \<and>
            cursor (render env rows s) < scrollOffset (render env rows s) + getVisibleRows rows"
    using w by (auto simp: render_def renderGameSelect_def renderExpansionSelect_def Let_def)
  have b: "reachable env s \<longrightarrow>
            state s = GameSelect \<and> filteredGames env s = [] \<or>
            state s = ExpansionSelect \<and> filteredExps env s = [] \<longrightarrow> scrollOffset s = 0"
    using reachable_scroll_inv [of env s] by (auto simp: scroll_inv_def)
  from a b show ?thesis by (rule conjI)
qed

theorem render_keeps_cursor_in_window_witness:
  "0 < getVisibleRows 8 \<and>
   state (initial_state\<lparr>cursor := 7\<rparr>) = GameSelect \<and>
   filteredGames scenario_env (initial_state\<lparr>cursor := 7\<rparr>) \<noteq> [] \<and>
   scrollOffset (render scenario_env 8 (initial_state\<lparr>cursor := 7\<rparr>))
     \<le> cursor (render scenario_env 8 (initial_state\<lparr>cursor := 7\<rparr>)) \<and>
   cursor (render scenario_env 8 (initial_state\<lparr>cursor := 7\<rparr>))
     < scrollOffset (render scenario_env 8 (initial_state\<lparr>cursor := 7\<rparr>)) + getVisibleRows 8 \<and>
   reachable scenario_env
     \<lparr>state = GameSelect, selectedGameId = None, cursor = 0, scrollOffset = 0,
      filterMode = True, filterText = ''z'', markedExpansions = []\<rparr> \<and>
   filteredGames scenario_env
     \<lparr>state = GameSelect, selectedGameId = None, cursor = 0, scrollOffset = 0,
      filterMode = True, filterText = ''z'', markedExpansions = []\<rparr> = [] \<and>
   scrollOffset
     \<lparr>state = GameSelect, selectedGameId = None, cursor = 0, scrollOffset = 0,
      filterMode = True, filterText = ''z'', markedExpansions = []\<rparr> = 0"
proof -
  let ?z = "\<lparr>state = GameSelect, selectedGameId = None, cursor = 0, scrollOffset = 0,
             filterMode = True, filterText = ''z'', markedExpansions = []\<rparr>"
  have v: "0 < getVisibleRows 8" by (simp add: getVisibleRows_def)
  have g: "state (initial_state\<lparr>cursor := 7\<rparr>) = GameSelect"
    "filteredGames scenario_env (initial_state\<lparr>cursor := 7\<rparr>) \<noteq> []"
    by (simp_all add: initial_state_def filteredGames_def scenario_env_def toLowerCase_def)
  have "run scenario_env (render scenario_env 8 initial_state) [(8, ''/''), (8, ''z'')] = Some ?z"
    by code_simp
  with reachable.start have r: "reachable scenario_env ?z" by (rule run_reachable)
  have e: "filteredGames scenario_env ?z = []" by code_simp
  from render_keeps_cursor_in_window [OF v, of "initial_state\<lparr>cursor := 7\<rparr>" scenario_env]
    render_keeps_cursor_in_window [OF v, of ?z scenario_env] v g r e
  show ?thesis by simp
qed

section \<open>The input decoder\<close>

lemma decode_timeouts_idle:
  "escapeBuffer d = [] \<Longrightarrow>
     snd (decode d (replicate n Timeout)) = [] \<and>
     escapeBuffer (fst (decode d (replicate n Timeout))) = []"
proof (induction n arbitrary: d)
  case 0
  then show ?case by simp
next
  case (Suc n)
  have "escapeBuffer (fst (on_timeout d)) = []" "snd (on_timeout d) = []"
    using Suc.prems by (simp_all add: on_timeout_def Let_def)
  with Suc.IH [of "fst (on_timeout d)"] show ?case
    by (simp add: split_beta)
qed

text \<open>
  When the decoder is idle (the escape buffer is empty) and no timer expires between
  the characters, it decodes as intended: ESC, \<open>[\<close>, \<open>A\<close> gives exactly one key, the
  arrow-up sequence, and the timers that expire afterwards add nothing; ESC alone and
  then an expiry gives exactly one key, the bare Escape. Timers left over from earlier
  escape characters may be pending in both cases.
\<close>

lemma decode_without_expiry_between:
  assumes "escapeBuffer d = []"
  shows "snd (decode d ([Byte ESC, Byte (CHR ''[''), Byte (CHR ''A'')] @ replicate n Timeout))
           = [[ESC, CHR ''['', CHR ''A'']] \<and>
         snd (decode d (Byte ESC # replicate (Suc n) Timeout)) = [[ESC]]"
proof -
  let ?d3 = "d\<lparr>timers := Suc (timers d), escapeBuffer := []\<rparr>"
  have a: "decode d ([Byte ESC, Byte (CHR ''[''), Byte (CHR ''A'')] @ evs) =
           (fst (decode ?d3 evs), [ESC, CHR ''['', CHR ''A''] # snd (decode ?d3 evs))" for evs
    using assms by (simp add: on_char_def Let_def split_beta)
  have b: "decode d (Byte ESC # Timeout # evs) =
           (fst (decode (d\<lparr>escapeBuffer := []\<rparr>) evs),
            [ESC] # snd (decode (d\<lparr>escapeBuffer := []\<rparr>) evs))" for evs
    using assms by (simp add: on_char_def on_timeout_def Let_def split_beta)
  show ?thesis
    using a [of "replicate n Timeout"] b [of "replicate n Timeout"]
      decode_timeouts_idle [of ?d3 n] decode_timeouts_idle [of "d\<lparr>escapeBuffer := []\<rparr>" n]
    by simp
qed

text \<open>
  Claim C8 says that ESC, \<open>[\<close>, \<open>A\<close> with the two trailing characters arriving before the
  50 ms timeout of that ESC yields exactly one arrow-up key and no Escape or stray
  character. The callback of a timer only tests whether the buffer is a lone ESC, and
  no timer is ever cancelled, so the timer of an earlier ESC can fire on a later one.
  From a fresh decoder: a first arrow-up arrives whole and leaves its timer pending; the
  ESC of a second arrow-up arrives less than 50 ms later; the first timer expires; then
  \<open>[\<close> and \<open>A\<close> arrive, before the second timer expires. The decoder passes on the first
  arrow-up, then a bare Escape and the two characters \<open>[\<close> and \<open>A\<close> as keys of their own.
\<close>

theorem arrow_split_by_earlier_timer:
  "decode \<lparr>escapeBuffer = [], timers = 0\<rparr>
     [Byte ESC, Byte (CHR ''[''), Byte (CHR ''A''), Byte ESC, Timeout,
      Byte (CHR ''[''), Byte (CHR ''A''), Timeout] =
   (\<lparr>escapeBuffer = [], timers = 0\<rparr>, [[ESC, CHR ''['', CHR ''A''], [ESC], ''['', ''A''])"
  by code_simp

section \<open>Properties of the aggregation engine\<close>

subsection \<open>The breakdown map holds the sums per card name\<close>

lemma first_seen_snoc:
  "first_seen (ns @ [n]) = (if n \<in> set ns then first_seen ns else first_seen ns @ [n])"
  by (simp add: first_seen_def)

lemma set_first_seen [simp]: "set (first_seen ns) = set ns"
  by (simp add: first_seen_def)

lemma distinct_first_seen [simp]: "distinct (first_seen ns)"
  by (simp add: first_seen_def)

lemma card_sum_snoc:
  "card_sum n (ms @ [i]) =
     (if item_name i = n
      then \<lparr> qty = qty (card_sum n ms) + item_qty i,
             cents = cents (card_sum n ms) + item_priceCents i * item_qty i \<rparr>
      else card_sum n ms)"
  by (simp add: card_sum_def)

lemma map_set_present:
  "distinct ks \<Longrightarrow> k \<in> set ks \<Longrightarrow>
     map_set (map (\<lambda>n. (n, f n)) ks) k v = map (\<lambda>n. (n, if n = k then v else f n)) ks"
  by (induction ks) auto

lemma map_set_fresh:
  "k \<notin> set ks \<Longrightarrow> map_set (map (\<lambda>n. (n, f n)) ks) k v = map (\<lambda>n. (n, f n)) ks @ [(k, v)]"
  by (induction ks) auto

lemma map_get_spec_breakdown:
  "map_get (spec_breakdown ms) k =
     (if k \<in> item_name ` set ms then Some (card_sum k ms) else None)"
  by (auto simp: map_get_def spec_breakdown_def map_of_map_restrict restrict_map_def)

lemma card_sum_absent: "k \<notin> item_name ` set ms \<Longrightarrow> card_sum k ms = \<lparr> qty = 0, cents = 0 \<rparr>"
proof -
  assume "k \<notin> item_name ` set ms"
  then have "filter (\<lambda>i. item_name i = k) ms = []"
    by (auto simp: filter_empty_conv)
  then show ?thesis by (simp add: card_sum_def)
qed

lemma spec_breakdown_snoc:
  "spec_breakdown (ms @ [i]) =
     map_set (spec_breakdown ms) (item_name i)
       \<lparr> qty = qty (card_sum (item_name i) ms) + item_qty i,
         cents = cents (card_sum (item_name i) ms) + item_priceCents i * item_qty i \<rparr>"
proof (cases "item_name i \<in> item_name ` set ms")
  case True
  then show ?thesis
    by (simp add: spec_breakdown_def first_seen_snoc map_set_present card_sum_snoc)
next
  case False
  then show ?thesis
    by (auto simp: spec_breakdown_def first_seen_snoc map_set_fresh card_sum_snoc)
qed

lemma scan_item_spec:
  assumes "cardBreakdown t = spec_breakdown ms"
  shows "scan_item e i t =
     (if itemExpName i = e
      then \<lparr> totalCents = totalCents t + item_priceCents i * item_qty i,
             totalQty = totalQty t + item_qty i,
             cardBreakdown = spec_breakdown (ms @ [i]) \<rparr>
      else t)"
  using assms
  by (auto simp: scan_item_def Let_def spec_breakdown_snoc map_get_spec_breakdown card_sum_absent)

lemma fold_scan_item:
  "cardBreakdown t = spec_breakdown ms \<Longrightarrow>
   fold (scan_item e) xs t =
     \<lparr> totalCents = totalCents t +
         sum_list (map (\<lambda>i. item_priceCents i * item_qty i) (filter (\<lambda>i. itemExpName i = e) xs)),
       totalQty = totalQty t + sum_list (map item_qty (filter (\<lambda>i. itemExpName i = e) xs)),
       cardBreakdown = spec_breakdown (ms @ filter (\<lambda>i. itemExpName i = e) xs) \<rparr>"
proof (induction xs arbitrary: t ms)
  case Nil
  then show ?case by simp
next
  case (Cons i xs)
  show ?case
  proof (cases "itemExpName i = e")
    case True
    let ?t = "scan_item e i t"
    from True Cons.prems have b: "cardBreakdown ?t = spec_breakdown (ms @ [i])"
      by (simp add: scan_item_spec)
    from True Cons.prems Cons.IH [OF b] show ?thesis
      by (simp add: scan_item_spec)
  next
    case False
    with Cons.prems Cons.IH [of t ms] show ?thesis
      by (simp add: scan_item_spec)
  qed
qed

lemma fold_scan_order:
  "fold (scan_order e) os t = fold (scan_item e) (all_line_items os) t"
  by (induction os arbitrary: t)
     (simp_all add: all_line_items_def scan_order_def split: option.split)

lemma scan_orders_spec:
  "scan_orders e os =
     \<lparr> totalCents = sum_list (map (\<lambda>i. item_priceCents i * item_qty i)
                       (filter (\<lambda>i. itemExpName i = e) (all_line_items os))),
       totalQty = sum_list (map item_qty (filter (\<lambda>i. itemExpName i = e) (all_line_items os))),
       cardBreakdown = spec_breakdown (filter (\<lambda>i. itemExpName i = e) (all_line_items os)) \<rparr>"
proof -
  have "cardBreakdown \<lparr> totalCents = 0, totalQty = 0, cardBreakdown = [] \<rparr> = spec_breakdown []"
    by (simp add: spec_breakdown_def first_seen_def)
  from fold_scan_item [OF this] show ?thesis
    by (simp add: scan_orders_def fold_scan_order)
qed

subsection \<open>The five best cards\<close>






subsection \<open>The results of the engine\<close>

text \<open>
  \<open>handleInput\<close> runs the engine in one place only, on Enter on the expansion list with
  a marked id, and on the state it then returns; the engine computes one result per
  marked id, in the order of the marks.
\<close>

lemma handleInput_calculated:
  assumes "handleInput env rows s key = Calculated s' v"
  shows "state s = ExpansionSelect \<and> \<not> filterMode s \<and> key = [CR] \<and>
         markedExpansions s \<noteq> [] \<and> s' = s\<lparr>state := Results\<rparr> \<and> v = renderResults env s'"
  using assms
  by (auto simp: handleInput_def Let_def split: if_splits option.splits)




subsection \<open>Line items with missing fields\<close>

text \<open>
  Claim C3 says that a line item with a missing quantity or revenue is skipped and adds
  zero to both totals. The scan does not skip it. A line of Alpha without a quantity and
  with a price of 500 cents adds 1 to \<open>totalQty\<close> and 500 to \<open>totalCents\<close>; a line with
  quantity 3 and no price adds 3 to \<open>totalQty\<close>.
\<close>

theorem incomplete_item_counterexample:
  "totalQty (sales_of_expansion
      (scenario_env\<lparr>orders := [\<lparr>order_items = ItemArray [line ''Alpha'' ''Card B'' None (Some 500)],
                                items = Absent\<rparr>]\<rparr>) 10) = 1 \<and>
   totalCents (sales_of_expansion
      (scenario_env\<lparr>orders := [\<lparr>order_items = ItemArray [line ''Alpha'' ''Card B'' None (Some 500)],
                                items = Absent\<rparr>]\<rparr>) 10) = 500 \<and>
   totalQty (sales_of_expansion
      (scenario_env\<lparr>orders := [\<lparr>order_items = ItemArray [line ''Alpha'' ''Card B'' (Some 3) None],
                                items = Absent\<rparr>]\<rparr>) 10) = 3"
  by code_simp

text \<open>
  Claim C3, amended: a line item with a missing field is counted with the defaults of
  the source. Compared with the same history without the line, a matching line with no
  quantity adds 1 to \<open>totalQty\<close> and its price to \<open>totalCents\<close>; a matching line with no
  price field (no \<open>seller_price.cents\<close>, no \<open>price_cents\<close>, no numeric \<open>price\<close>) adds its
  quantity to \<open>totalQty\<close> and nothing to \<open>totalCents\<close>; a record whose item list is not an
  array adds nothing. In each case the records and items before and after are scanned
  as they would be without it.
\<close>

theorem incomplete_items_count_with_defaults:
  assumes "order_line_items ord = Some (xs @ i # ys)"
    and "order_line_items ord' = Some (xs @ ys)"
    and "itemExpName i = e"
  shows "let a = scan_orders e (os1 @ ord # os2); b = scan_orders e (os1 @ ord' # os2) in
     (quantity i = None \<longrightarrow>
        totalQty a = totalQty b + 1 \<and> totalCents a = totalCents b + item_priceCents i) \<and>
     (seller_price_cents i = None \<and> price_cents i = None \<and> price_rounded i = None \<longrightarrow>
        totalQty a = totalQty b + item_qty i \<and> totalCents a = totalCents b) \<and>
     (order_line_items bad = None \<longrightarrow>
        scan_orders e (os1 @ bad # os2) = scan_orders e (os1 @ os2))"
proof -
  have q: "quantity i = None \<Longrightarrow> item_qty i = 1"
    by (simp add: item_qty_def)
  have p: "seller_price_cents i = None \<and> price_cents i = None \<and> price_rounded i = None
             \<Longrightarrow> item_priceCents i = 0"
    by (simp add: item_priceCents_def)
  have l: "all_line_items (os1 @ ord # os2)
             = all_line_items os1 @ (xs @ i # ys) @ all_line_items os2"
    "all_line_items (os1 @ ord' # os2) = all_line_items os1 @ (xs @ ys) @ all_line_items os2"
    using assms(1,2) by (simp_all add: all_line_items_def)
  have n: "order_line_items bad = None
             \<Longrightarrow> all_line_items (os1 @ bad # os2) = all_line_items (os1 @ os2)"
    by (simp add: all_line_items_def)
  show ?thesis
    using assms(3) q p n
    by (auto simp: Let_def scan_orders_spec l)
qed

theorem incomplete_items_count_with_defaults_witness:
  "order_line_items \<lparr>order_items = ItemArray [line ''Alpha'' ''Card B'' None (Some 500)],
                     items = Absent\<rparr> = Some ([] @ line ''Alpha'' ''Card B'' None (Some 500) # []) \<and>
   order_line_items \<lparr>order_items = Absent, items = ItemArray [line ''Alpha'' ''Card B'' (Some 3) None]\<rparr>
     = Some ([] @ line ''Alpha'' ''Card B'' (Some 3) None # []) \<and>
   order_line_items \<lparr>order_items = ItemArray [], items = Absent\<rparr> = Some ([] @ []) \<and>
   order_line_items \<lparr>order_items = NonArray, items = Absent\<rparr> = None \<and>
   itemExpName (line ''Alpha'' ''Card B'' None (Some 500)) = ''alpha'' \<and>
   itemExpName (line ''Alpha'' ''Card B'' (Some 3) None) = ''alpha'' \<and>
   quantity (line ''Alpha'' ''Card B'' None (Some 500)) = None \<and>
   seller_price_cents (line ''Alpha'' ''Card B'' (Some 3) None) = None \<and>
   price_cents (line ''Alpha'' ''Card B'' (Some 3) None) = None \<and>
   price_rounded (line ''Alpha'' ''Card B'' (Some 3) None) = None \<and>
   totalQty (scan_orders ''alpha''
     ([] @ \<lparr>order_items = ItemArray [line ''Alpha'' ''Card B'' None (Some 500)], items = Absent\<rparr>
         # orders scenario_env)) = 3 \<and>
   totalCents (scan_orders ''alpha''
     ([] @ \<lparr>order_items = ItemArray [line ''Alpha'' ''Card B'' None (Some 500)], items = Absent\<rparr>
         # orders scenario_env)) = 1500 \<and>
   totalQty (scan_orders ''alpha''
     ([] @ \<lparr>order_items = Absent, items = ItemArray [line ''Alpha'' ''Card B'' (Some 3) None]\<rparr>
         # orders scenario_env)) = 5 \<and>
   totalCents (scan_orders ''alpha''
     ([] @ \<lparr>order_items = Absent, items = ItemArray [line ''Alpha'' ''Card B'' (Some 3) None]\<rparr>
         # orders scenario_env)) = 1000 \<and>
   scan_orders ''alpha'' ([] @ \<lparr>order_items = NonArray, items = Absent\<rparr> # orders scenario_env)
     = scan_orders ''alpha'' ([] @ orders scenario_env)"
proof -
  let ?i = "line ''Alpha'' ''Card B'' None (Some 500)"
  let ?j = "line ''Alpha'' ''Card B'' (Some 3) None"
  let ?oi = "\<lparr>order_items = ItemArray [?i], items = Absent\<rparr>"
  let ?oj = "\<lparr>order_items = Absent, items = ItemArray [?j]\<rparr>"
  let ?o0 = "\<lparr>order_items = ItemArray [], items = Absent\<rparr>"
  let ?bad = "\<lparr>order_items = NonArray, items = Absent\<rparr>"
  have li: "order_line_items ?oi = Some ([] @ ?i # [])"
    and lj: "order_line_items ?oj = Some ([] @ ?j # [])"
    and l0: "order_line_items ?o0 = Some ([] @ [])"
    and lb: "order_line_items ?bad = None"
    by (simp_all add: order_line_items_def)
  have ei: "itemExpName ?i = ''alpha''" and ej: "itemExpName ?j = ''alpha''"
    by code_simp+
  have fi: "quantity ?i = None" "item_priceCents ?i = 500"
    and fj: "seller_price_cents ?j = None" "price_cents ?j = None" "price_rounded ?j = None"
      "item_qty ?j = 3"
    by (simp_all add: line_def item_priceCents_def item_qty_def)
  have base: "totalQty (scan_orders ''alpha'' ([] @ ?o0 # orders scenario_env)) = 2"
    "totalCents (scan_orders ''alpha'' ([] @ ?o0 # orders scenario_env)) = 1000"
    by code_simp+
  from incomplete_items_count_with_defaults [OF li l0 ei, of "[]" "orders scenario_env" ?bad]
    incomplete_items_count_with_defaults [OF lj l0 ej, of "[]" "orders scenario_env" ?bad]
    li lj l0 lb ei ej fi fj base
  show ?thesis
    by (simp add: Let_def)
qed

end
